theory Spec2Isabelle
  imports Main "HOL-Library.AList"
begin

section \<open>Data of the cart completion endpoint\<close>

text \<open>
  Modelled from the spec: the recovery points of the completion workflow. The
  \<^verbatim>\<open>IdempotencyKey\<close> model's declaration is imported by the handler from
  \<^verbatim>\<open>../../../../models\<close> and is not among the sources at hand. The spec gives
  the fixed linear ordering
  \<^verbatim>\<open>started -> tax_lines_validated -> payment_authorized -> order_created -> finished\<close>.
\<close>

datatype recovery_point =
  Started | TaxLinesValidated | PaymentAuthorized | OrderCreated | Finished

text \<open>\<^verbatim>\<open>req.params\<close> of the route \<^verbatim>\<open>/carts/:id/complete\<close>: the cart id.\<close>

record req_params =
  id_param :: string

text \<open>
  Modelled from the spec: the persisted \<^verbatim>\<open>IdempotencyKey\<close> entity (the type the
  handler imports from \<^verbatim>\<open>../../../../models\<close>), with the fields of the spec's
  data model. The handler itself only reads \<^verbatim>\<open>idempotency_key\<close>. A nullable field
  is an option; the response body is an arbitrary payload of type \<open>'b\<close>.
\<close>

record 'b IdempotencyKey =
  idempotency_key :: string
  request_method :: string
  request_path :: string
  request_params :: req_params
  recovery_point :: recovery_point
  response_code :: "int option"
  response_body :: "'b option"
  locked_at :: "nat option"

text \<open>
  The part of the Express request the handler reads: \<^verbatim>\<open>req.params\<close>,
  \<^verbatim>\<open>req.get("Idempotency-Key")\<close> (undefined when the header is missing),
  \<^verbatim>\<open>req.method\<close>, \<^verbatim>\<open>req.path\<close> and \<^verbatim>\<open>req.request_context\<close>.
\<close>

record 'c request =
  params :: req_params
  header_Idempotency_Key :: "string option"
  req_method :: string
  path :: string
  request_context :: 'c

text \<open>
  The Express response object as the handler changes it: the status code, the
  headers set with \<^verbatim>\<open>setHeader\<close>, and the payload written by \<^verbatim>\<open>send\<close> (a
  string) or \<^verbatim>\<open>json\<close> (a value serialised as JSON).
\<close>

datatype 'b payload = Send string | Json 'b

record 'b response =
  statusCode :: int
  headers :: "string \<rightharpoonup> string"
  body :: "'b payload option"

definition status :: "int \<Rightarrow> 'b response \<Rightarrow> 'b response" where
  "status code res = res\<lparr>statusCode := code\<rparr>"

definition setHeader :: "string \<Rightarrow> string \<Rightarrow> 'b response \<Rightarrow> 'b response" where
  "setHeader name v res = res\<lparr>headers := (headers res)(name \<mapsto> v)\<rparr>"

definition send :: "string \<Rightarrow> 'b response \<Rightarrow> 'b response" where
  "send text res = res\<lparr>body := Some (Send text)\<rparr>"

definition json :: "'b \<Rightarrow> 'b response \<Rightarrow> 'b response" where
  "json v res = res\<lparr>body := Some (Json v)\<rparr>"

text \<open>
  What one run of the handler leaves behind: the response object, the errors
  written by \<^verbatim>\<open>console.log\<close>, the error the async handler rejects with (if the
  strategy throws, nothing catches it here), the calls made to the completion
  strategy with their arguments, and the state of the persistence layer.
\<close>

record ('b, 'e, 'c, 's) outcome =
  res :: "'b response"
  console :: "'e list"
  rejected :: "'e option"
  invoked :: "(string \<times> 'b IdempotencyKey \<times> 'c) list"
  world :: 's

section \<open>The handler of POST /carts/:id/complete\<close>

text \<open>\<^verbatim>\<open>req.get("Idempotency-Key") || ""\<close>: undefined and the empty string give "".\<close>

definition headerKey :: "'c request \<Rightarrow> string" where
  "headerKey req =
     (case header_Idempotency_Key req of
        None \<Rightarrow> ''''
      | Some h \<Rightarrow> (if h = '''' then '''' else h))"

text \<open>
  The default export of \<^verbatim>\<open>complete-cart.ts\<close>. The two services it resolves from
  \<^verbatim>\<open>req.scope\<close> are parameters (the container is taken to resolve them):
  \<open>initializeRequest\<close> runs inside \<^verbatim>\<open>manager.transaction\<close>, so when it throws
  (\<open>Inl\<close>) the state is the one before the call; \<open>complete\<close> returns
  \<^verbatim>\<open>{ response_code, response_body }\<close> (a pair) or throws, and in both cases hands
  back the state it left. The \<^verbatim>\<open>try\<close> block covers the initialisation only: an
  error of the strategy is not caught, so the handler rejects with it after the
  two headers are set.
\<close>

definition complete_cart ::
  "(string \<Rightarrow> string \<Rightarrow> req_params \<Rightarrow> string \<Rightarrow> 's \<Rightarrow> 'e + ('b IdempotencyKey \<times> 's)) \<Rightarrow>
   (string \<Rightarrow> 'b IdempotencyKey \<Rightarrow> 'c \<Rightarrow> 's \<Rightarrow> ('e + (int \<times> 'b)) \<times> 's) \<Rightarrow>
   'c request \<Rightarrow> 'b response \<Rightarrow> 's \<Rightarrow> ('b, 'e, 'c, 's) outcome" where
  "complete_cart initializeRequest complete req res0 s =
     (let id = id_param (params req) in
      case initializeRequest (headerKey req) (req_method req) (params req) (path req) s of
        Inl error \<Rightarrow>
          \<lparr>res = send ''Failed to create idempotency key'' (status 409 res0),
           console = [error], rejected = None, invoked = [], world = s\<rparr>
      | Inr (idempotencyKey, s1) \<Rightarrow>
          (let res1 = setHeader ''Access-Control-Expose-Headers'' ''Idempotency-Key'' res0;
               res2 = setHeader ''Idempotency-Key'' (idempotency_key idempotencyKey) res1;
               call = (id, idempotencyKey, request_context req)
           in case complete id idempotencyKey (request_context req) s1 of
                (Inl err, s2) \<Rightarrow>
                  \<lparr>res = res2, console = [], rejected = Some err,
                   invoked = [call], world = s2\<rparr>
              | (Inr (code, payload), s2) \<Rightarrow>
                  \<lparr>res = json payload (status code res2), console = [],
                   rejected = None, invoked = [call], world = s2\<rparr>))"

text \<open>A fresh response object: status 200, no header, nothing written.\<close>

definition fresh_res :: "'b response" where
  "fresh_res = \<lparr>statusCode = 200, headers = Map.empty, body = None\<rparr>"

section \<open>The idempotency key store\<close>

text \<open>
  Modelled from the spec: the persistence layer behind the absent services, as far
  as the workflow sees it: the table of \<^verbatim>\<open>IdempotencyKey\<close> records, one per token
  (the token is the primary lookup key), and the domain state (carts, payment
  sessions, orders) that the completion strategy reads and writes.
\<close>

record ('b, 'd) store =
  keys :: "(string \<times> 'b IdempotencyKey) list"
  domain :: 'd

text \<open>
  Modelled from the spec: the errors a call of the absent services can throw, after
  the spec's error taxonomy. Terminal step errors are not thrown but cached as
  responses; \<open>UnexpectedError\<close> stands for a failure that must be visible.
\<close>

datatype error = ConflictError | RecoverableStepError string | UnexpectedError

text \<open>
  Modelled from the spec: fetching the record of a token, and persisting a record
  under its token, in the table of the absent \<^verbatim>\<open>IdempotencyKeyService\<close>.
\<close>

definition fetch :: "('b, 'd) store \<Rightarrow> string \<Rightarrow> 'b IdempotencyKey option" where
  "fetch s token = map_of (keys s) token"

definition save :: "'b IdempotencyKey \<Rightarrow> ('b, 'd) store \<Rightarrow> ('b, 'd) store" where
  "save key s = s\<lparr>keys := AList.update (idempotency_key key) key (keys s)\<rparr>"

text \<open>
  Modelled from the spec: the fresh unique token generated when the request brings
  none. The spec fixes only that the token is fresh and unique (an opaque
  UUID-like string); the model takes a non-empty token that is longer than every
  token in the table, which therefore no record uses.
\<close>

definition generate_token :: "('b, 'd) store \<Rightarrow> string" where
  "generate_token s = replicate (Suc (foldr max (map (length \<circ> fst) (keys s)) 0)) CHR ''k''"

text \<open>
  Modelled from the spec: creation of a key record (\<^verbatim>\<open>IdempotencyKeyService\<close> is
  imported from \<^verbatim>\<open>../../../../services\<close> and is not among the sources at hand).
  A new record starts at \<^verbatim>\<open>recovery_point = started\<close> with no response; the
  token is unique in the store, so creating a second record for a token violates
  the uniqueness constraint.
\<close>

definition new_key :: "string \<Rightarrow> string \<Rightarrow> req_params \<Rightarrow> string \<Rightarrow> 'b IdempotencyKey" where
  "new_key token m p pa =
     \<lparr>idempotency_key = token, request_method = m, request_path = pa,
      request_params = p, recovery_point = Started, response_code = None,
      response_body = None, locked_at = None\<rparr>"

text \<open>
  Modelled from the spec: the attempt to create a record for a token, failing with
  \<^verbatim>\<open>ConflictError\<close> when the uniqueness constraint is violated.
\<close>

definition create ::
  "string \<Rightarrow> string \<Rightarrow> req_params \<Rightarrow> string \<Rightarrow> ('b, 'd) store \<Rightarrow>
   error + ('b IdempotencyKey \<times> ('b, 'd) store)" where
  "create token m p pa s =
     (case fetch s token of
        Some _ \<Rightarrow> Inl ConflictError
      | None \<Rightarrow> Inr (new_key token m p pa, save (new_key token m p pa) s))"

text \<open>
  Modelled from the spec: \<^verbatim>\<open>initializeRequest(providedKey, method, params, path)\<close>
  of the absent \<^verbatim>\<open>IdempotencyKeyService\<close>. An empty \<open>providedKey\<close>: a fresh
  unique token is generated and a new record created. A non-empty one: creation
  is attempted with that token, and if a record already exists for it, that
  record is fetched and returned; the \<^verbatim>\<open>ConflictError\<close> remains only where the
  existing record cannot be fetched.
\<close>

definition initializeRequest ::
  "string \<Rightarrow> string \<Rightarrow> req_params \<Rightarrow> string \<Rightarrow>
   ('b, 'd) store \<Rightarrow> error + ('b IdempotencyKey \<times> ('b, 'd) store)" where
  "initializeRequest providedKey m p pa s =
     (if providedKey = '''' then create (generate_token s) m p pa s
      else case create providedKey m p pa s of
             Inr created \<Rightarrow> Inr created
           | Inl e \<Rightarrow>
               (case fetch s providedKey of
                  Some existing \<Rightarrow> Inr (existing, s)
                | None \<Rightarrow> Inl e))"

text \<open>
  Modelled from the spec: \<^verbatim>\<open>update(key, patch)\<close> of the absent service persists a
  new recovery point and, optionally, the response code and body.
\<close>

definition update ::
  "'b IdempotencyKey \<Rightarrow> recovery_point \<Rightarrow> (int \<times> 'b) option \<Rightarrow> ('b, 'd) store \<Rightarrow>
   'b IdempotencyKey \<times> ('b, 'd) store" where
  "update key p response s =
     (let key' = (case response of
                    None \<Rightarrow> key\<lparr>recovery_point := p\<rparr>
                  | Some (code, payload) \<Rightarrow>
                      key\<lparr>recovery_point := p, response_code := Some code,
                          response_body := Some payload\<rparr>)
      in (key', save key' s))"


section \<open>The completion step executor\<close>

text \<open>
  Modelled from the spec: the fixed linear ordering of the recovery points that the
  step executor follows (the executor and the strategy's \<^verbatim>\<open>complete\<close> belong to
  \<^verbatim>\<open>AbstractCartCompletionStrategy\<close>, imported from \<^verbatim>\<open>../../../../interfaces\<close>
  and not among the sources at hand).
\<close>

fun next_point :: "recovery_point \<Rightarrow> recovery_point" where
  "next_point Started = TaxLinesValidated"
| "next_point TaxLinesValidated = PaymentAuthorized"
| "next_point PaymentAuthorized = OrderCreated"
| "next_point OrderCreated = Finished"
| "next_point Finished = Finished"

text \<open>Modelled from the spec: the position of a recovery point in that ordering.\<close>

fun rank :: "recovery_point \<Rightarrow> nat" where
  "rank Started = 0"
| "rank TaxLinesValidated = 1"
| "rank PaymentAuthorized = 2"
| "rank OrderCreated = 3"
| "rank Finished = 4"

text \<open>
  Modelled from the spec: what the handler registered for a recovery point in the
  absent strategy reports, after the spec's step results and failure classes: the step completed (with the payload that
  becomes the response if it was the last step); the customer must act (the cart
  is returned with HTTP success and the same step is re-entered on the next
  call); a recoverable failure (safe to retry from the same point); a terminal
  failure (its error response is cached).
\<close>

datatype 'b step_outcome =
    StepCompleted int 'b
  | RequiresAction int 'b
  | RecoverableFailure string
  | TerminalFailure int 'b

text \<open>
  Modelled from the spec: one step of the absent executor, in one transaction
  (steps 3, 4 and 6 of the spec's executor). The handler registered for the
  current recovery point runs on the domain state, and its result is persisted
  with \<open>update\<close> together with its domain writes. A completed step advances the
  recovery point to the next one in the ordering, and the last one persists the
  final response. A terminal failure persists the error as the response; since a
  response is set only on a finished record, the recovery point becomes
  \<open>Finished\<close>. A recoverable failure rolls the transaction back and leaves the
  recovery point where it was. When the customer must act, the cart is returned
  and the recovery point stays, so that the next call re-enters the same step.
  The third component is the reply that ends the call, if any.
\<close>

definition execute_step ::
  "(recovery_point \<Rightarrow> string \<Rightarrow> 'c \<Rightarrow> 'd \<Rightarrow> 'b step_outcome \<times> 'd) \<Rightarrow>
   string \<Rightarrow> 'c \<Rightarrow> 'b IdempotencyKey \<Rightarrow> ('b, 'd) store \<Rightarrow>
   'b IdempotencyKey \<times> ('b, 'd) store \<times> (error + (int \<times> 'b)) option" where
  "execute_step handlers cartId ctx key s =
     (case handlers (recovery_point key) cartId ctx (domain s) of
        (StepCompleted code payload, d) \<Rightarrow>
          (let p = next_point (recovery_point key);
               (key', s') = update key p (if p = Finished then Some (code, payload) else None)
                              (s\<lparr>domain := d\<rparr>)
           in (key', s', None))
      | (RequiresAction code payload, d) \<Rightarrow> (key, s\<lparr>domain := d\<rparr>, Some (Inr (code, payload)))
      | (RecoverableFailure msg, d) \<Rightarrow> (key, s, Some (Inl (RecoverableStepError msg)))
      | (TerminalFailure code payload, d) \<Rightarrow>
          (let (key', s') = update key Finished (Some (code, payload)) (s\<lparr>domain := d\<rparr>)
           in (key', s', None)))"

text \<open>
  Modelled from the spec: the response persisted on a finished key, returned
  unchanged. A finished record without a response has no meaning in the spec's
  data model; there the call fails visibly.
\<close>

definition persisted_response :: "'b IdempotencyKey \<Rightarrow> error + (int \<times> 'b)" where
  "persisted_response key =
     (case (response_code key, response_body key) of
        (Some code, Some payload) \<Rightarrow> Inr (code, payload)
      | _ \<Rightarrow> Inl UnexpectedError)"

text \<open>
  Modelled from the spec: \<^verbatim>\<open>complete(cartId, idempotencyKey, requestContext)\<close> of
  the absent strategy. A finished key short-circuits to its persisted response
  and no step is executed; otherwise steps are executed from the key's recovery
  point, each in its own transaction, until one ends the call or the key is
  finished. One call goes through all the steps it can, as the handler's own
  description of the endpoint says: payment authorization is attempted, the cart
  is returned if more work is required, and otherwise the order is created.
\<close>

function complete ::
  "(recovery_point \<Rightarrow> string \<Rightarrow> 'c \<Rightarrow> 'd \<Rightarrow> 'b step_outcome \<times> 'd) \<Rightarrow>
   string \<Rightarrow> 'b IdempotencyKey \<Rightarrow> 'c \<Rightarrow> ('b, 'd) store \<Rightarrow>
   (error + (int \<times> 'b)) \<times> ('b, 'd) store" where
  "complete handlers cartId key ctx s =
     (if recovery_point key = Finished then (persisted_response key, s)
      else case execute_step handlers cartId ctx key s of
             (key', s', None) \<Rightarrow> complete handlers cartId key' ctx s'
           | (key', s', Some reply) \<Rightarrow> (reply, s'))"
  by pat_completeness auto

termination complete
proof (relation "measure (\<lambda>(handlers, cartId, key, ctx, s). 4 - rank (recovery_point key))", goal_cases)
  case 1
  show ?case by simp
next
  case (2 handlers cartId key ctx s key' y s' r)
  then have step: "execute_step handlers cartId ctx key s = (key', s', None)"
    by simp
  have "rank (recovery_point key) < rank (recovery_point key')"
    using step \<open>recovery_point key \<noteq> Finished\<close>
    by (cases "recovery_point key")
       (auto simp: execute_step_def update_def Let_def
             split: prod.splits step_outcome.splits if_splits)
  moreover have "rank (recovery_point key') \<le> 4"
    by (cases "recovery_point key'") simp_all
  ultimately show ?case
    by simp
qed

declare complete.simps [simp del]

section \<open>The endpoint with its services\<close>


section \<open>Example requests and services\<close>

text \<open>A completion request for cart \<^verbatim>\<open>cart_01\<close> carrying the token \<^verbatim>\<open>token-1\<close>.\<close>

definition example_req :: "unit request" where
  "example_req =
     \<lparr>params = \<lparr>id_param = ''cart_01''\<rparr>, header_Idempotency_Key = Some ''token-1'',
      req_method = ''POST'', path = ''/store/carts/cart_01/complete'', request_context = ()\<rparr>"

text \<open>The same request without the \<^verbatim>\<open>Idempotency-Key\<close> header.\<close>

definition example_req_no_header :: "unit request" where
  "example_req_no_header = example_req\<lparr>header_Idempotency_Key := None\<rparr>"

text \<open>
  A key service whose persistence layer is down: \<^verbatim>\<open>initializeRequest\<close> throws a
  connection error (a string, not a conflict error) for every request.
\<close>

definition unavailable_initializeRequest ::
  "string \<Rightarrow> string \<Rightarrow> req_params \<Rightarrow> string \<Rightarrow> unit \<Rightarrow> string + (string IdempotencyKey \<times> unit)" where
  "unavailable_initializeRequest providedKey m p pa s = Inl ''ECONNREFUSED''"

text \<open>A key service that resolves every request to a record at \<^verbatim>\<open>started\<close>.\<close>

definition stub_initializeRequest ::
  "string \<Rightarrow> string \<Rightarrow> req_params \<Rightarrow> string \<Rightarrow> unit \<Rightarrow> string + (string IdempotencyKey \<times> unit)" where
  "stub_initializeRequest providedKey m p pa s = Inr (new_key ''token-1'' m p pa, ())"

text \<open>A strategy that places the order, and one that throws.\<close>

definition stub_complete ::
  "string \<Rightarrow> string IdempotencyKey \<Rightarrow> unit \<Rightarrow> unit \<Rightarrow> (string + (int \<times> string)) \<times> unit" where
  "stub_complete cartId key ctx s = (Inr (200, ''{type: order}''), ())"

definition throwing_complete ::
  "string \<Rightarrow> string IdempotencyKey \<Rightarrow> unit \<Rightarrow> unit \<Rightarrow> (string + (int \<times> string)) \<times> unit" where
  "throwing_complete cartId key ctx s = (Inl ''payment provider timeout'', ())"

text \<open>
  A small shop as domain state, with step handlers that validate, authorise the
  payment, create the order and report it.
\<close>

record shop =
  sessions :: "string list"
  orders :: "string list"



definition empty_store :: "(string, shop) store" where
  "empty_store = \<lparr>keys = [], domain = \<lparr>sessions = [], orders = []\<rparr>\<rparr>"

text \<open>The record of \<^verbatim>\<open>token-1\<close> when the order is placed.\<close>

definition finished_example_key :: "string IdempotencyKey" where
  "finished_example_key =
     \<lparr>idempotency_key = ''token-1'', request_method = ''POST'',
      request_path = ''/store/carts/cart_01/complete'',
      request_params = \<lparr>id_param = ''cart_01''\<rparr>, recovery_point = Finished,
      response_code = Some 200, response_body = Some ''order for cart_01'',
      locked_at = None\<rparr>"

definition store_with_token_1 :: "(string, shop) store" where
  "store_with_token_1 = empty_store\<lparr>keys := [(''token-1'', finished_example_key)]\<rparr>"

section \<open>Facts about the key service and the executor\<close>


lemma fetch_save:
  "fetch (save key s) t = (if t = idempotency_key key then Some key else fetch s t)"
  by (simp add: fetch_def save_def AList.update_conv')


lemma le_foldr_max: "x \<in> set xs \<Longrightarrow> f x \<le> foldr max (map f xs) (0::nat)"
  by (induction xs) auto

lemma generate_token_fresh: "fetch s (generate_token s) = None"
proof -
  have "generate_token s \<notin> fst ` set (keys s)"
  proof
    assume "generate_token s \<in> fst ` set (keys s)"
    then obtain e where e: "e \<in> set (keys s)" and t: "fst e = generate_token s"
      by auto
    from le_foldr_max[OF e, of "length \<circ> fst"] t
    have "length (generate_token s) \<le> foldr max (map (length \<circ> fst) (keys s)) 0"
      by simp
    then show False
      by (simp add: generate_token_def)
  qed
  then show ?thesis
    by (simp add: fetch_def map_of_eq_None_iff)
qed

lemma generate_token_not_empty: "generate_token s \<noteq> ''''"
  by (simp add: generate_token_def)

lemma initializeRequest_existing:
  "providedKey \<noteq> '''' \<Longrightarrow> fetch s providedKey = Some existing \<Longrightarrow>
   initializeRequest providedKey m p pa s = Inr (existing, s)"
  by (simp add: initializeRequest_def create_def)

lemma initializeRequest_new:
  "providedKey \<noteq> '''' \<Longrightarrow> fetch s providedKey = None \<Longrightarrow>
   initializeRequest providedKey m p pa s
     = Inr (new_key providedKey m p pa, save (new_key providedKey m p pa) s)"
  by (simp add: initializeRequest_def create_def)

lemma initializeRequest_generated:
  "initializeRequest '''' m p pa s
     = Inr (new_key (generate_token s) m p pa, save (new_key (generate_token s) m p pa) s)"
  by (simp add: initializeRequest_def create_def generate_token_fresh)

lemma idempotency_key_new_key: "idempotency_key (new_key token m p pa) = token"
  by (simp add: new_key_def)
















section \<open>The handler when the key cannot be initialised\<close>



text \<open>
  C10. Whatever error \<^verbatim>\<open>initializeRequest\<close> throws (the error type is arbitrary),
  the handler's response is the same fixed one: the response object it was given
  with status 409 and the text "Failed to create idempotency key" written by
  \<^verbatim>\<open>send\<close> (not a JSON body); no header is set on that path, so the headers are
  those the response object already had. The error only reaches the console.
\<close>

theorem init_error_fixed_response:
  assumes "init (headerKey req) (req_method req) (params req) (path req) s = Inl error"
  shows "res (complete_cart init strategy req res0 s)
           = res0\<lparr>statusCode := 409, body := Some (Send ''Failed to create idempotency key'')\<rparr>
       \<and> headers (res (complete_cart init strategy req res0 s)) = headers res0
       \<and> console (complete_cart init strategy req res0 s) = [error]"
  using assms by (simp add: complete_cart_def status_def send_def)

theorem init_error_fixed_response_witness:
  "unavailable_initializeRequest (headerKey example_req) (req_method example_req)
       (params example_req) (path example_req) () = Inl ''ECONNREFUSED''
   \<and> res (complete_cart unavailable_initializeRequest stub_complete example_req fresh_res ())
       = \<lparr>statusCode = 409, headers = Map.empty,
          body = Some (Send ''Failed to create idempotency key'')\<rparr>"
  using init_error_fixed_response
          [of unavailable_initializeRequest example_req "()" "''ECONNREFUSED''"
              stub_complete fresh_res]
  by (simp add: unavailable_initializeRequest_def fresh_res_def)

section \<open>The handler when the key is initialised\<close>

text \<open>
  C3, as the handler has it. The claim that every response carries the
  \<^verbatim>\<open>Idempotency-Key\<close> header, failing requests included, does not hold when
  \<^verbatim>\<open>initializeRequest\<close> throws: the handler returns before any header is set (and
  there is no key whose token it could send).
\<close>

theorem idempotency_header_missing_counterexample:
  "headers (res (complete_cart unavailable_initializeRequest stub_complete
                   example_req fresh_res ())) ''Idempotency-Key'' = None
   \<and> headers (res (complete_cart unavailable_initializeRequest stub_complete
                   example_req fresh_res ())) ''Access-Control-Expose-Headers'' = None"
  by (simp add: complete_cart_def unavailable_initializeRequest_def status_def send_def
                fresh_res_def)

text \<open>
  C3, amended. For every request whose idempotency key initialisation succeeds,
  the response carries an \<^verbatim>\<open>Idempotency-Key\<close> header whose value is the resolved
  key's \<^verbatim>\<open>idempotency_key\<close>, and that header name is the value of the
  \<^verbatim>\<open>Access-Control-Expose-Headers\<close> header; this holds whether the completion
  strategy then returns or throws.
\<close>

theorem idempotency_header_set_when_initialised:
  assumes "init (headerKey req) (req_method req) (params req) (path req) s
             = Inr (idempotencyKey, s1)"
  shows "headers (res (complete_cart init strategy req res0 s)) ''Idempotency-Key''
           = Some (idempotency_key idempotencyKey)
       \<and> headers (res (complete_cart init strategy req res0 s))
           ''Access-Control-Expose-Headers'' = Some ''Idempotency-Key''"
  using assms
  by (simp add: complete_cart_def setHeader_def status_def json_def Let_def
           split: prod.splits sum.splits)

theorem idempotency_header_set_when_initialised_witness:
  "stub_initializeRequest (headerKey example_req) (req_method example_req)
       (params example_req) (path example_req) ()
     = Inr (new_key ''token-1'' ''POST'' \<lparr>id_param = ''cart_01''\<rparr> ''/store/carts/cart_01/complete'', ())
   \<and> headers (res (complete_cart stub_initializeRequest throwing_complete
                     example_req fresh_res ())) ''Idempotency-Key'' = Some ''token-1''
   \<and> headers (res (complete_cart stub_initializeRequest throwing_complete
                     example_req fresh_res ())) ''Access-Control-Expose-Headers''
       = Some ''Idempotency-Key''"
  using idempotency_header_set_when_initialised
          [of stub_initializeRequest example_req "()"
              "new_key ''token-1'' ''POST'' \<lparr>id_param = ''cart_01''\<rparr> ''/store/carts/cart_01/complete''"
              "()" throwing_complete fresh_res]
  by (simp add: stub_initializeRequest_def example_req_def new_key_def)

text \<open>
  C4. For every request whose idempotency key initialisation succeeds, the status
  code and the JSON body of the response are exactly the \<^verbatim>\<open>response_code\<close> and
  \<^verbatim>\<open>response_body\<close> that the strategy's
  \<^verbatim>\<open>complete(cartId, idempotencyKey, requestContext)\<close> returns, where the cart id is
  \<^verbatim>\<open>req.params.id\<close>, the key is the one \<^verbatim>\<open>initializeRequest\<close> returned and the
  context is \<^verbatim>\<open>req.request_context\<close>; the strategy is called once, and nothing is
  added to, removed from or changed in the body.
\<close>

theorem response_is_strategy_result:
  assumes "init (headerKey req) (req_method req) (params req) (path req) s
             = Inr (idempotencyKey, s1)"
    and "strategy (id_param (params req)) idempotencyKey (request_context req) s1
             = (Inr (code, payload), s2)"
  shows "statusCode (res (complete_cart init strategy req res0 s)) = code
       \<and> body (res (complete_cart init strategy req res0 s)) = Some (Json payload)
       \<and> invoked (complete_cart init strategy req res0 s)
           = [(id_param (params req), idempotencyKey, request_context req)]
       \<and> rejected (complete_cart init strategy req res0 s) = None
       \<and> world (complete_cart init strategy req res0 s) = s2"
  using assms
  by (simp add: complete_cart_def setHeader_def status_def json_def Let_def)

theorem response_is_strategy_result_witness:
  "stub_initializeRequest (headerKey example_req) (req_method example_req)
       (params example_req) (path example_req) ()
     = Inr (new_key ''token-1'' ''POST'' \<lparr>id_param = ''cart_01''\<rparr> ''/store/carts/cart_01/complete'', ())
   \<and> stub_complete (id_param (params example_req))
        (new_key ''token-1'' ''POST'' \<lparr>id_param = ''cart_01''\<rparr> ''/store/carts/cart_01/complete'')
        (request_context example_req) ()
     = (Inr (200, ''{type: order}''), ())
   \<and> statusCode (res (complete_cart stub_initializeRequest stub_complete
                        example_req fresh_res ())) = 200
   \<and> body (res (complete_cart stub_initializeRequest stub_complete example_req fresh_res ()))
       = Some (Json ''{type: order}'')"
  using response_is_strategy_result
          [of stub_initializeRequest example_req "()"
              "new_key ''token-1'' ''POST'' \<lparr>id_param = ''cart_01''\<rparr> ''/store/carts/cart_01/complete''"
              "()" stub_complete 200 "''{type: order}''" "()" fresh_res]
  by (simp add: stub_initializeRequest_def stub_complete_def example_req_def)

section \<open>Idempotent creation of the key\<close>

text \<open>
  C6. \<^verbatim>\<open>initializeRequest\<close> is idempotent in the provided key. For a non-empty
  \<open>providedKey\<close>: if a record already exists for that token it is fetched and
  returned, with the store unchanged; the call never errors, and a second call
  with the same key (whatever its method, params and path) yields the same
  record. For an empty \<open>providedKey\<close> the call never errors either: a token is
  generated that is not empty and that no record of the store uses, and a new
  record with \<^verbatim>\<open>recovery_point = started\<close> is created under it, all other records
  being kept; a second call without a key gets a different token. A missing
  \<^verbatim>\<open>Idempotency-Key\<close> header is the empty key for the handler.
\<close>

theorem initializeRequest_idempotent_creation:
  "(providedKey \<noteq> '''' \<and> fetch s providedKey = Some existing \<longrightarrow>
      initializeRequest providedKey m p pa s = Inr (existing, s))
   \<and> (providedKey \<noteq> '''' \<longrightarrow>
        (\<exists>k1 s1. initializeRequest providedKey m p pa s = Inr (k1, s1)
                \<and> initializeRequest providedKey m' p' pa' s1 = Inr (k1, s1)))
   \<and> (\<exists>k1 s1. initializeRequest '''' m p pa s = Inr (k1, s1)
              \<and> idempotency_key k1 \<noteq> ''''
              \<and> fetch s (idempotency_key k1) = None
              \<and> k1 = new_key (idempotency_key k1) m p pa
              \<and> recovery_point k1 = Started
              \<and> fetch s1 (idempotency_key k1) = Some k1
              \<and> (\<forall>t. t \<noteq> idempotency_key k1 \<longrightarrow> fetch s1 t = fetch s t)
              \<and> (\<exists>k2 s2. initializeRequest '''' m' p' pa' s1 = Inr (k2, s2)
                         \<and> idempotency_key k2 \<noteq> idempotency_key k1))
   \<and> (header_Idempotency_Key req = None \<longrightarrow> headerKey req = '''')"
proof (intro conjI impI)
  assume "providedKey \<noteq> '''' \<and> fetch s providedKey = Some existing"
  then show "initializeRequest providedKey m p pa s = Inr (existing, s)"
    by (simp add: initializeRequest_existing)
next
  assume ne: "providedKey \<noteq> ''''"
  show "\<exists>k1 s1. initializeRequest providedKey m p pa s = Inr (k1, s1)
              \<and> initializeRequest providedKey m' p' pa' s1 = Inr (k1, s1)"
  proof (cases "fetch s providedKey")
    case None
    have "fetch (save (new_key providedKey m p pa) s) providedKey
            = Some (new_key providedKey m p pa)"
      by (simp add: fetch_save idempotency_key_new_key)
    from initializeRequest_new[OF ne None, of m p pa] initializeRequest_existing[OF ne this]
    show ?thesis
      by simp
  next
    case (Some existing)
    from initializeRequest_existing[OF ne Some]
    show ?thesis
      by simp
  qed
next
  let ?k1 = "new_key (generate_token s) m p pa :: 'a IdempotencyKey"
  let ?s1 = "save ?k1 s"
  let ?k2 = "new_key (generate_token ?s1) m' p' pa' :: 'a IdempotencyKey"
  have tok: "idempotency_key ?k1 = generate_token s"
    by (rule idempotency_key_new_key)
  have stored: "fetch ?s1 (generate_token s) = Some ?k1"
    by (simp add: fetch_save tok)
  have other: "generate_token ?s1 \<noteq> generate_token s"
    using generate_token_fresh[of ?s1] stored by auto
  have "initializeRequest '''' m p pa s = Inr (?k1, ?s1)"
    by (rule initializeRequest_generated)
  moreover have "idempotency_key ?k1 \<noteq> ''''"
    by (simp add: tok generate_token_not_empty)
  moreover have "fetch s (idempotency_key ?k1) = None"
    by (simp add: tok generate_token_fresh)
  moreover have "?k1 = new_key (idempotency_key ?k1) m p pa"
    by (simp add: tok)
  moreover have "recovery_point ?k1 = Started"
    by (simp add: new_key_def)
  moreover have "fetch ?s1 (idempotency_key ?k1) = Some ?k1"
    by (simp add: tok stored)
  moreover have "\<forall>t. t \<noteq> idempotency_key ?k1 \<longrightarrow> fetch ?s1 t = fetch s t"
    by (simp add: fetch_save)
  moreover have "\<exists>k2 s2. initializeRequest '''' m' p' pa' ?s1 = Inr (k2, s2)
                        \<and> idempotency_key k2 \<noteq> idempotency_key ?k1"
    using initializeRequest_generated[of m' p' pa' ?s1] other
    by (simp add: idempotency_key_new_key)
  ultimately
  show "\<exists>k1 s1. initializeRequest '''' m p pa s = Inr (k1, s1)
              \<and> idempotency_key k1 \<noteq> ''''
              \<and> fetch s (idempotency_key k1) = None
              \<and> k1 = new_key (idempotency_key k1) m p pa
              \<and> recovery_point k1 = Started
              \<and> fetch s1 (idempotency_key k1) = Some k1
              \<and> (\<forall>t. t \<noteq> idempotency_key k1 \<longrightarrow> fetch s1 t = fetch s t)
              \<and> (\<exists>k2 s2. initializeRequest '''' m' p' pa' s1 = Inr (k2, s2)
                         \<and> idempotency_key k2 \<noteq> idempotency_key k1)"
    by blast
next
  assume "header_Idempotency_Key req = None"
  then show "headerKey req = ''''"
    by (simp add: headerKey_def)
qed

theorem initializeRequest_idempotent_creation_witness:
  "''token-1'' \<noteq> ''''
   \<and> fetch store_with_token_1 ''token-1'' = Some finished_example_key
   \<and> initializeRequest ''token-1'' ''POST'' \<lparr>id_param = ''cart_01''\<rparr>
        ''/store/carts/cart_01/complete'' store_with_token_1
       = Inr (finished_example_key, store_with_token_1)
   \<and> initializeRequest '''' ''POST'' \<lparr>id_param = ''cart_01''\<rparr>
        ''/store/carts/cart_01/complete'' store_with_token_1
       = Inr (new_key ''kkkkkkkk'' ''POST'' \<lparr>id_param = ''cart_01''\<rparr>
                ''/store/carts/cart_01/complete'',
              store_with_token_1\<lparr>keys :=
                 [(''token-1'', finished_example_key),
                  (''kkkkkkkk'', new_key ''kkkkkkkk'' ''POST'' \<lparr>id_param = ''cart_01''\<rparr>
                     ''/store/carts/cart_01/complete'')]\<rparr>)
   \<and> header_Idempotency_Key example_req_no_header = None
   \<and> headerKey example_req_no_header = ''''"
proof -
  have ne: "''token-1'' \<noteq> ''''"
    by simp
  have ex: "fetch store_with_token_1 ''token-1'' = Some finished_example_key"
    by (simp add: fetch_def store_with_token_1_def empty_store_def)
  have hdr: "header_Idempotency_Key example_req_no_header = None"
    by (simp add: example_req_no_header_def)
  note inst = initializeRequest_idempotent_creation
         [of "''token-1''" store_with_token_1 finished_example_key
             "''POST''" "\<lparr>id_param = ''cart_01''\<rparr>" "''/store/carts/cart_01/complete''"
             "''POST''" "\<lparr>id_param = ''cart_01''\<rparr>" "''/store/carts/cart_01/complete''"
             example_req_no_header]
  from inst ne ex
  have c1: "initializeRequest ''token-1'' ''POST'' \<lparr>id_param = ''cart_01''\<rparr>
              ''/store/carts/cart_01/complete'' store_with_token_1
            = Inr (finished_example_key, store_with_token_1)"
    by blast
  have c3: "initializeRequest '''' ''POST'' \<lparr>id_param = ''cart_01''\<rparr>
              ''/store/carts/cart_01/complete'' store_with_token_1
            = Inr (new_key ''kkkkkkkk'' ''POST'' \<lparr>id_param = ''cart_01''\<rparr>
                     ''/store/carts/cart_01/complete'',
                   store_with_token_1\<lparr>keys :=
                     [(''token-1'', finished_example_key),
                      (''kkkkkkkk'', new_key ''kkkkkkkk'' ''POST'' \<lparr>id_param = ''cart_01''\<rparr>
                         ''/store/carts/cart_01/complete'')]\<rparr>)"
    by (simp add: initializeRequest_def create_def fetch_def save_def generate_token_def
          store_with_token_1_def empty_store_def new_key_def finished_example_key_def)
  from inst hdr have c4: "headerKey example_req_no_header = ''''"
    by blast
  from ne ex c1 c3 hdr c4
  show ?thesis
    by blast
qed

section \<open>Replay of a request\<close>




end
